theory Spec2Isabelle
  imports Main "HOL-Library.Word"
begin

unbundle bit_operations_syntax

section \<open>Hard-fault diagnostics of \<^verbatim>\<open>Ch09_Debugging/hardfaults.c\<close>\<close>

text \<open>
  The file holds two alternative fault handlers, each behind its own preprocessor switch:
  the register-dumping handler \<^verbatim>\<open>hard_fault_handler_c\<close> (switch \<^verbatim>\<open>NEW_HANLDER_1\<close>) and the
  core-dump handler \<^verbatim>\<open>my_fault_handler_c\<close> (switch \<^verbatim>\<open>NEW_HANDLER_MEMFAULT\<close>), each entered
  through an assembly trampoline named \<^verbatim>\<open>HardFault_Handler\<close>. Both are modelled as written.
\<close>

subsection \<open>Words and the hardware environment\<close>

type_synonym u32 = "32 word"
type_synonym u8 = "8 word"

text \<open>
  What the handlers can observe of the machine: \<open>load32 h a\<close> is the value a 32-bit load
  from byte address \<open>a\<close> returns (stack memory and the memory-mapped fault registers
  alike), and \<open>debugger_attached h\<close> is the debugger-present condition the comment in
  \<^verbatim>\<open>my_fault_handler_c\<close> speaks of. The handlers only read this environment; the core-dump
  variable is a separate object (the \<^verbatim>\<open>.CoreDump\<close> section is assumed not to overlap the
  stack).
\<close>

record hw =
  load32 :: "u32 \<Rightarrow> u32"
  debugger_attached :: bool

text \<open>
  The observable actions of a handler run, in program order. \<open>Breakpoint imm v\<close> is the
  instruction \<^verbatim>\<open>BKPT #imm\<close>, with the data \<open>v\<close> that is in place when it executes.
  \<open>SystemReset\<close> is a reset request; no statement of the file issues one.
\<close>

datatype 'v action = Breakpoint nat 'v | SystemReset

subsection \<open>The exception frame\<close>

text \<open>\<^verbatim>\<open>typedef struct __attribute__((packed)) ContextStateFrame\<close>: eight 32-bit words.\<close>

record sContextStateFrame =
  r0 :: u32
  r1 :: u32
  r2 :: u32
  r3 :: u32
  r12 :: u32
  lr :: u32
  return_address :: u32
  xpsr :: u32

text \<open>
  The fields \<^verbatim>\<open>frame->r0\<close>, ... of a frame pointer: member \<open>i\<close> of the packed struct is
  loaded from \<open>frame + 4 * i\<close> (address arithmetic wraps at 32 bits).
\<close>

definition frame_at :: "hw \<Rightarrow> u32 \<Rightarrow> sContextStateFrame" where
  "frame_at h frame =
     \<lparr>r0 = load32 h frame,
      r1 = load32 h (frame + 4),
      r2 = load32 h (frame + 8),
      r3 = load32 h (frame + 12),
      r12 = load32 h (frame + 16),
      lr = load32 h (frame + 20),
      return_address = load32 h (frame + 24),
      xpsr = load32 h (frame + 28)\<rparr>"

subsection \<open>The core-dump record and the handler that writes it\<close>

definition COREDUMP_KEY :: u32 where
  "COREDUMP_KEY = 0xE0C2024"

text \<open>
  \<^verbatim>\<open>struct sCoreDump\<close>. The last member is an \<^verbatim>\<open>int32_t\<close>: its 32 bits are kept as a word
  (\<open>sint\<close> reads the signed value). The register members share their names with the
  frame's; from here on the frame's are written \<open>sContextStateFrame.r0\<close> and so on.
\<close>

record sCoreDump =
  key :: u32
  cause :: u32
  r0 :: u32
  r1 :: u32
  r2 :: u32
  r3 :: u32
  returnAddress :: u32
  stackPointer :: u32
  lastBattReading :: u32

text \<open>
  \<^verbatim>\<open>void my_fault_handler_c(sContextStateFrame *frame)\<close>: eight assignments to the global
  \<^verbatim>\<open>coreDump\<close>, one per line in the order of the source, then \<^verbatim>\<open>BKPT #0\<close>, then the function
  returns (the recovery logic after the breakpoint is a comment only). The result is the
  content of \<^verbatim>\<open>coreDump\<close> afterwards and the actions performed.
\<close>

definition my_fault_handler_c ::
  "hw \<Rightarrow> u32 \<Rightarrow> sCoreDump \<Rightarrow> sCoreDump \<times> sCoreDump action list" where
  "my_fault_handler_c h frame coreDump =
     (let f = frame_at h frame;
          coreDump = coreDump\<lparr>key := COREDUMP_KEY\<rparr>;
          coreDump = coreDump\<lparr>r0 := sContextStateFrame.r0 f\<rparr>;
          coreDump = coreDump\<lparr>r1 := sContextStateFrame.r1 f\<rparr>;
          coreDump = coreDump\<lparr>r2 := sContextStateFrame.r2 f\<rparr>;
          coreDump = coreDump\<lparr>r3 := sContextStateFrame.r3 f\<rparr>;
          coreDump = coreDump\<lparr>returnAddress := return_address f\<rparr>;
          coreDump = coreDump\<lparr>stackPointer := xpsr f\<rparr>;
          coreDump = coreDump\<lparr>lastBattReading := 0\<rparr>
      in (coreDump, [Breakpoint 0 coreDump]))"

text \<open>
  The write postcondition in the words of the specification (the contract of \<open>write\<close>
  and the description of the record): the key is the known constant, the cause is the
  fault classification, r0-r3 and the return address are the frame's, and the stack
  pointer field is the stack pointer at fault time. It is the property to compare the
  handler with, not a translation of code.
\<close>

definition write_postcondition ::
  "u32 \<Rightarrow> u32 \<Rightarrow> sContextStateFrame \<Rightarrow> sCoreDump \<Rightarrow> bool" where
  "write_postcondition classification sp f cd \<longleftrightarrow>
     key cd = COREDUMP_KEY \<and> cause cd = classification \<and>
     r0 cd = sContextStateFrame.r0 f \<and> r1 cd = sContextStateFrame.r1 f \<and>
     r2 cd = sContextStateFrame.r2 f \<and> r3 cd = sContextStateFrame.r3 f \<and>
     returnAddress cd = return_address f \<and> stackPointer cd = sp"

text \<open>
  The outcomes the specification's policy engine distinguishes, and the outcome a run of
  a handler amounts to: the first terminal action decides (a reset does not return, a
  breakpoint halts); a handler that performs neither returns into the faulting context.
\<close>

datatype FaultDecision = Continue | Halt | Reset

fun decision_of :: "'v action list \<Rightarrow> FaultDecision" where
  "decision_of [] = Continue"
| "decision_of (SystemReset # _) = Reset"
| "decision_of (Breakpoint _ _ # _) = Halt"

subsection \<open>The register-dumping handler\<close>

text \<open>
  The volatile locals of \<^verbatim>\<open>hard_fault_handler_c\<close> (\<^verbatim>\<open>unsigned long\<close> is 32 bits on the
  target). The source writes the last six with a leading underscore (\<^verbatim>\<open>_CFSR\<close>, ...),
  which is not an Isabelle name; they carry the prefix \<open>var\<close> here.
\<close>

record hard_fault_locals =
  stacked_r0 :: u32
  stacked_r1 :: u32
  stacked_r2 :: u32
  stacked_r3 :: u32
  stacked_r12 :: u32
  stacked_lr :: u32
  stacked_pc :: u32
  stacked_psr :: u32
  var_CFSR :: u32
  var_HFSR :: u32
  var_DFSR :: u32
  var_AFSR :: u32
  var_BFAR :: u32
  var_MMAR :: u32

text \<open>
  The assignments of \<^verbatim>\<open>hard_fault_handler_c\<close>: \<^verbatim>\<open>hardfault_args[i]\<close> is the word at
  \<open>hardfault_args + 4 * i\<close>, and the six registers are read at their fixed addresses.
  Both fault address registers are read without looking at \<^verbatim>\<open>_CFSR\<close>.
\<close>

definition hard_fault_handler_c_locals :: "hw \<Rightarrow> u32 \<Rightarrow> hard_fault_locals" where
  "hard_fault_handler_c_locals h hardfault_args =
     \<lparr>stacked_r0 = load32 h hardfault_args,
      stacked_r1 = load32 h (hardfault_args + 4),
      stacked_r2 = load32 h (hardfault_args + 8),
      stacked_r3 = load32 h (hardfault_args + 12),
      stacked_r12 = load32 h (hardfault_args + 16),
      stacked_lr = load32 h (hardfault_args + 20),
      stacked_pc = load32 h (hardfault_args + 24),
      stacked_psr = load32 h (hardfault_args + 28),
      var_CFSR = load32 h 0xE000ED28,
      var_HFSR = load32 h 0xE000ED2C,
      var_DFSR = load32 h 0xE000ED30,
      var_AFSR = load32 h 0xE000ED3C,
      var_BFAR = load32 h 0xE000ED38,
      var_MMAR = load32 h 0xE000ED34\<rparr>"

text \<open>
  \<^verbatim>\<open>void hard_fault_handler_c(unsigned long *hardfault_args)\<close>: the locals are filled in and
  \<^verbatim>\<open>BKPT #0\<close> follows; the function returns nothing, so what it reports is what the locals
  hold at the breakpoint.
\<close>

definition hard_fault_handler_c :: "hw \<Rightarrow> u32 \<Rightarrow> hard_fault_locals action list" where
  "hard_fault_handler_c h hardfault_args =
     [Breakpoint 0 (hard_fault_handler_c_locals h hardfault_args)]"

text \<open>
  Modelled from the spec: the three sub-status fields of the composite fault status
  register (memory-management, bus, usage; \<section>4.2), which the comment above the read of
  \<^verbatim>\<open>_CFSR\<close> names MMFSR, BFSR and UFSR. Their bit ranges are those of the CMSIS header the
  source includes through \<^verbatim>\<open>stm32l4xx.h\<close>, which is not among the sources: bits 0-7,
  8-15 and 16-31.
\<close>

definition MMFSR_of :: "u32 \<Rightarrow> u32" where
  "MMFSR_of cfsr = cfsr AND 0xFF"

definition BFSR_of :: "u32 \<Rightarrow> u32" where
  "BFSR_of cfsr = drop_bit 8 cfsr AND 0xFF"

definition UFSR_of :: "u32 \<Rightarrow> u32" where
  "UFSR_of cfsr = drop_bit 16 cfsr"

text \<open>
  Modelled from the spec: the fault categories of \<section>7 and the priority order of \<section>4.2
  (memory-protection, then bus, then usage, then escalated/unknown). No function of the
  source computes a category; this is the classification the specification describes.
\<close>

datatype category =
  AlignmentFault | AccessFault | UndefinedInstructionFault | ProtectionFault | EscalatedFault

definition spec_classify :: "u32 \<Rightarrow> category" where
  "spec_classify cfsr =
     (if MMFSR_of cfsr \<noteq> 0 then ProtectionFault
      else if BFSR_of cfsr \<noteq> 0 then AccessFault
      else if UFSR_of cfsr \<noteq> 0 then UndefinedInstructionFault
      else EscalatedFault)"

subsection \<open>The assembly trampolines\<close>

text \<open>
  The registers the trampolines touch, and the zero flag their conditional instructions
  test. \<open>LR\<close> holds the exception return value the hardware put there on entry; \<open>MSP\<close> and
  \<open>PSP\<close> are the two banked stack pointers. The handlers are not declared naked; the
  model takes the instructions as written, with nothing executed before them.
\<close>

record cpu =
  R0 :: u32
  R1 :: u32
  LR :: u32
  MSP :: u32
  PSP :: u32
  flag_Z :: bool

text \<open>
  The instructions used, by their effect on these registers: \<^verbatim>\<open>tst a, b\<close> sets the zero
  flag when \<open>a AND b\<close> is zero; \<^verbatim>\<open>movs\<close> moves a value and sets the flag from it; \<^verbatim>\<open>mrs\<close>
  copies a special register into r0; \<^verbatim>\<open>ldr r1, [a]\<close> loads a word.
\<close>

definition tst :: "u32 \<Rightarrow> u32 \<Rightarrow> cpu \<Rightarrow> cpu" where
  "tst a b c = c\<lparr>flag_Z := (a AND b = 0)\<rparr>"

definition movs_r0 :: "u32 \<Rightarrow> cpu \<Rightarrow> cpu" where
  "movs_r0 v c = c\<lparr>R0 := v, flag_Z := (v = 0)\<rparr>"

definition movs_r1 :: "u32 \<Rightarrow> cpu \<Rightarrow> cpu" where
  "movs_r1 v c = c\<lparr>R1 := v, flag_Z := (v = 0)\<rparr>"

definition mrs_r0 :: "u32 \<Rightarrow> cpu \<Rightarrow> cpu" where
  "mrs_r0 v c = c\<lparr>R0 := v\<rparr>"

definition ldr_r1 :: "hw \<Rightarrow> u32 \<Rightarrow> cpu \<Rightarrow> cpu" where
  "ldr_r1 h a c = c\<lparr>R1 := load32 h a\<rparr>"

text \<open>
  \<^verbatim>\<open>HARDFAULT_HANDLING_ASM\<close>, up to its final branch:
  \<^verbatim>\<open>tst lr, #4; ite eq; mrseq r0, msp; mrsne r0, psp\<close>.
\<close>

definition HARDFAULT_HANDLING_ASM :: "cpu \<Rightarrow> cpu" where
  "HARDFAULT_HANDLING_ASM c =
     (let c = tst (LR c) 4 c
      in if flag_Z c then mrs_r0 (MSP c) c
         else mrs_r0 (PSP c) c)"

text \<open>
  \<^verbatim>\<open>HardFault_Handler\<close> of the core-dump variant: the macro, whose last instruction
  \<^verbatim>\<open>b my_fault_handler_c\<close> enters the C handler with r0 as its first argument.
\<close>

definition HardFault_Handler ::
  "hw \<Rightarrow> cpu \<Rightarrow> sCoreDump \<Rightarrow> sCoreDump \<times> sCoreDump action list" where
  "HardFault_Handler h c coreDump =
     my_fault_handler_c h (R0 (HARDFAULT_HANDLING_ASM c)) coreDump"

text \<open>
  \<^verbatim>\<open>HardFault_Handler\<close> of the register-dumping variant, up to its branch:
  \<^verbatim>\<open>movs r0, #4; movs r1, lr; tst r0, r1; beq _MSP; mrs r0, psp; b _HALT;\<close>
  \<^verbatim>\<open>_MSP: mrs r0, msp; _HALT: ldr r1, [r0, #20]\<close>. The \<^verbatim>\<open>bkpt #0\<close> after the branch is never
  reached.
\<close>

definition HardFault_Handler_1_asm :: "hw \<Rightarrow> cpu \<Rightarrow> cpu" where
  "HardFault_Handler_1_asm h c =
     (let c = movs_r0 4 c;
          c = movs_r1 (LR c) c;
          c = tst (R0 c) (R1 c) c;
          c = (if flag_Z c then mrs_r0 (MSP c) c
               else mrs_r0 (PSP c) c)
      in ldr_r1 h (R0 c + 20) c)"

definition HardFault_Handler_1 :: "hw \<Rightarrow> cpu \<Rightarrow> hard_fault_locals action list" where
  "HardFault_Handler_1 h c = hard_fault_handler_c h (R0 (HardFault_Handler_1_asm h c))"

subsection \<open>The record in memory\<close>

text \<open>
  The member list of \<^verbatim>\<open>struct sCoreDump\<close> as declared, with the C type of each member;
  on the target both types take four bytes and are aligned to four.
\<close>

datatype ctype = Uint32_t | Int32_t

fun sizeof :: "ctype \<Rightarrow> nat" where
  "sizeof Uint32_t = 4"
| "sizeof Int32_t = 4"

fun alignof :: "ctype \<Rightarrow> nat" where
  "alignof Uint32_t = 4"
| "alignof Int32_t = 4"

definition sCoreDump_members :: "(string \<times> ctype) list" where
  "sCoreDump_members =
     [(''key'', Uint32_t), (''cause'', Uint32_t), (''r0'', Uint32_t), (''r1'', Uint32_t),
      (''r2'', Uint32_t), (''r3'', Uint32_t), (''returnAddress'', Uint32_t),
      (''stackPointer'', Uint32_t), (''lastBattReading'', Int32_t)]"

text \<open>
  Member name, offset and size, for a packed struct (each member right after the one
  before) and for a struct laid out with natural alignment (each member at the next
  multiple of its alignment). The \<^verbatim>\<open>packed\<close> attribute stands before the \<^verbatim>\<open>struct\<close> keyword
  in the source, so both layouts are computed.
\<close>

fun layout_packed :: "nat \<Rightarrow> (string \<times> ctype) list \<Rightarrow> (string \<times> nat \<times> nat) list" where
  "layout_packed off [] = []"
| "layout_packed off ((n, t) # ms) = (n, off, sizeof t) # layout_packed (off + sizeof t) ms"

definition align_up :: "nat \<Rightarrow> nat \<Rightarrow> nat" where
  "align_up a off = ((off + a - 1) div a) * a"

fun layout_aligned :: "nat \<Rightarrow> (string \<times> ctype) list \<Rightarrow> (string \<times> nat \<times> nat) list" where
  "layout_aligned off [] = []"
| "layout_aligned off ((n, t) # ms) =
     (n, align_up (alignof t) off, sizeof t)
       # layout_aligned (align_up (alignof t) off + sizeof t) ms"

text \<open>The bytes of a 32-bit word in memory, in either byte order, and the word of four bytes.\<close>

datatype endian = LittleEndian | BigEndian

definition u32_bytes_le :: "u32 \<Rightarrow> u8 list" where
  "u32_bytes_le w = [ucast w, ucast (drop_bit 8 w), ucast (drop_bit 16 w), ucast (drop_bit 24 w)]"

fun u32_bytes :: "endian \<Rightarrow> u32 \<Rightarrow> u8 list" where
  "u32_bytes LittleEndian w = u32_bytes_le w"
| "u32_bytes BigEndian w = rev (u32_bytes_le w)"

fun bytes_u32_le :: "u8 list \<Rightarrow> u32" where
  "bytes_u32_le [b0, b1, b2, b3] =
     ucast b0 OR push_bit 8 (ucast b1) OR push_bit 16 (ucast b2) OR push_bit 24 (ucast b3)"
| "bytes_u32_le _ = 0"

fun bytes_u32 :: "endian \<Rightarrow> u8 list \<Rightarrow> u32" where
  "bytes_u32 LittleEndian bs = bytes_u32_le bs"
| "bytes_u32 BigEndian bs = bytes_u32_le (rev bs)"

text \<open>
  The content of the reserved region when the variable \<^verbatim>\<open>coreDump\<close> holds \<open>cd\<close>: the members
  in declaration order, each stored by a 32-bit store in the byte order \<open>e\<close> of the target.
  \<open>member_bytes off region\<close> are the four bytes at offset \<open>off\<close>, and \<open>bytes_sCoreDump\<close>
  is the record a program finds in a region: each member loaded from its offset.
\<close>

definition member_values :: "sCoreDump \<Rightarrow> u32 list" where
  "member_values cd =
     [key cd, cause cd, r0 cd, r1 cd, r2 cd, r3 cd, returnAddress cd, stackPointer cd,
      lastBattReading cd]"

definition sCoreDump_bytes :: "endian \<Rightarrow> sCoreDump \<Rightarrow> u8 list" where
  "sCoreDump_bytes e cd = concat (map (u32_bytes e) (member_values cd))"

definition member_bytes :: "nat \<Rightarrow> u8 list \<Rightarrow> u8 list" where
  "member_bytes off region = take 4 (drop off region)"

definition bytes_sCoreDump :: "endian \<Rightarrow> u8 list \<Rightarrow> sCoreDump" where
  "bytes_sCoreDump e region =
     \<lparr>key = bytes_u32 e (member_bytes 0 region),
      cause = bytes_u32 e (member_bytes 4 region),
      r0 = bytes_u32 e (member_bytes 8 region),
      r1 = bytes_u32 e (member_bytes 12 region),
      r2 = bytes_u32 e (member_bytes 16 region),
      r3 = bytes_u32 e (member_bytes 20 region),
      returnAddress = bytes_u32 e (member_bytes 24 region),
      stackPointer = bytes_u32 e (member_bytes 28 region),
      lastBattReading = bytes_u32 e (member_bytes 32 region)\<rparr>"

text \<open>
  Modelled from the spec: the boot-time read operation of the core-dump store
  (\<open>read() -> Option<CoreDumpRecord>\<close>, \<section>4.3). The source has no reader of the region,
  only the declaration of the variable and the comment on its key member (\<^verbatim>\<open>must equal\<close>
  \<^verbatim>\<open>COREDUMP_KEY for this to be valid\<close>). As the specification words it, the key field is
  validated first; on a mismatch the result is absent, otherwise the full record.
\<close>

definition coreDump_read :: "endian \<Rightarrow> u8 list \<Rightarrow> sCoreDump option" where
  "coreDump_read e region =
     (if bytes_u32 e (member_bytes 0 region) \<noteq> COREDUMP_KEY then None
      else Some (bytes_sCoreDump e region))"

subsection \<open>A concrete fault\<close>

text \<open>
  A frame stacked at \<open>0x2000FFE0\<close> (so the stack pointer was \<open>0x20010000\<close> when the fault
  hit), no debugger attached, every fault status register zero, and a reserved region
  that still holds an older record.
\<close>

definition fault_hw :: hw where
  "fault_hw =
     \<lparr>load32 = (\<lambda>a. if a = 0x2000FFE0 then 0x11
                     else if a = 0x2000FFE4 then 0x22
                     else if a = 0x2000FFE8 then 0x33
                     else if a = 0x2000FFEC then 0x44
                     else if a = 0x2000FFF0 then 0x55
                     else if a = 0x2000FFF4 then 0x08000123
                     else if a = 0x2000FFF8 then 0x08000456
                     else if a = 0x2000FFFC then 0x01000000
                     else 0),
      debugger_attached = False\<rparr>"

definition old_dump :: sCoreDump where
  "old_dump =
     \<lparr>key = 0, cause = 7, r0 = 0, r1 = 0, r2 = 0, r3 = 0,
      returnAddress = 0, stackPointer = 0, lastBattReading = 3300\<rparr>"

text \<open>
  Three more hardware states, all with the frame area zero. In \<open>stale_hw\<close> the composite
  fault status register is zero (every validity bit clear) while both fault address
  registers still hold old values. In \<open>mem_and_bus_hw\<close> the status register has a
  memory-management bit pair (DACCVIOL, MMARVALID) and a bus bit pair (PRECISERR,
  BFARVALID) set; in \<open>bus_only_hw\<close> only the bus pair.
\<close>

definition stale_hw :: hw where
  "stale_hw =
     \<lparr>load32 = (\<lambda>a. if a = 0xE000ED34 then 0xDEADBEEF
                     else if a = 0xE000ED38 then 0xCAFEF00D
                     else 0),
      debugger_attached = True\<rparr>"

definition mem_and_bus_hw :: hw where
  "mem_and_bus_hw =
     \<lparr>load32 = (\<lambda>a. if a = 0xE000ED28 then 0x8282 else 0), debugger_attached = True\<rparr>"

definition bus_only_hw :: hw where
  "bus_only_hw =
     \<lparr>load32 = (\<lambda>a. if a = 0xE000ED28 then 0x8200 else 0), debugger_attached = True\<rparr>"

text \<open>
  Two processor states on entry to the trap, one with the exception return value of a
  fault in code running on the main stack, one on the process stack.
\<close>

definition main_stack_cpu :: cpu where
  "main_stack_cpu =
     \<lparr>R0 = 0, R1 = 0, LR = 0xFFFFFFF9, MSP = 0x2000FFE0, PSP = 0x20004000, flag_Z = False\<rparr>"

definition process_stack_cpu :: cpu where
  "process_stack_cpu =
     \<lparr>R0 = 0, R1 = 0, LR = 0xFFFFFFFD, MSP = 0x2000FFE0, PSP = 0x20004000, flag_Z = True\<rparr>"

text \<open>
  Two contents of the 36-byte region: one all zero, as after a power loss, and the
  little-endian image of the record the concrete fault leaves behind.
\<close>

definition blank_region :: "u8 list" where
  "blank_region =
     [0, 0, 0, 0,  0, 0, 0, 0,  0, 0, 0, 0,  0, 0, 0, 0,  0, 0, 0, 0,  0, 0, 0, 0,
      0, 0, 0, 0,  0, 0, 0, 0,  0, 0, 0, 0]"

definition fault_region :: "u8 list" where
  "fault_region =
     [0x24, 0x20, 0x0C, 0x0E,  7, 0, 0, 0,  0x11, 0, 0, 0,  0x22, 0, 0, 0,
      0x33, 0, 0, 0,  0x44, 0, 0, 0,  0x56, 0x04, 0x00, 0x08,  0, 0, 0, 0x01,
      0, 0, 0, 0]"

section \<open>Properties of the core-dump handler\<close>

lemma my_fault_handler_c_fst:
  "fst (my_fault_handler_c h frame cd) =
     cd\<lparr>key := COREDUMP_KEY,
        r0 := load32 h frame,
        r1 := load32 h (frame + 4),
        r2 := load32 h (frame + 8),
        r3 := load32 h (frame + 12),
        returnAddress := load32 h (frame + 24),
        stackPointer := load32 h (frame + 28),
        lastBattReading := 0\<rparr>"
  by (simp add: my_fault_handler_c_def frame_at_def Let_def)

lemma my_fault_handler_c_snd:
  "snd (my_fault_handler_c h frame cd) = [Breakpoint 0 (fst (my_fault_handler_c h frame cd))]"
  by (simp add: my_fault_handler_c_def Let_def)

lemma my_fault_handler_c_ignores_debugger:
  "my_fault_handler_c (h\<lparr>debugger_attached := d\<rparr>) frame cd = my_fault_handler_c h frame cd"
  by (simp add: my_fault_handler_c_def frame_at_def Let_def)

lemma fault_hw_result:
  "fst (my_fault_handler_c fault_hw 0x2000FFE0 old_dump) =
     \<lparr>key = 0xE0C2024, cause = 7, r0 = 0x11, r1 = 0x22, r2 = 0x33, r3 = 0x44,
      returnAddress = 0x08000456, stackPointer = 0x01000000, lastBattReading = 0\<rparr>"
  by (simp add: my_fault_handler_c_fst fault_hw_def old_dump_def COREDUMP_KEY_def)

text \<open>
  C10. Whatever the frame, the hardware state and the previous content of the region, the
  handler leaves \<^verbatim>\<open>lastBattReading\<close> at the constant 0: an earlier auxiliary value does not
  survive a fault.
\<close>

theorem my_fault_handler_c_lastBattReading_zero:
  "lastBattReading (fst (my_fault_handler_c h frame cd)) = 0"
  by (simp add: my_fault_handler_c_fst)

text \<open>
  C9. For every frame and every previous region content, and whether or not a debugger is
  attached, the handler's actions are exactly one \<^verbatim>\<open>BKPT #0\<close>, executed when the region
  already holds the record the handler persists; the debugger-present condition changes
  nothing of the run.
\<close>

theorem my_fault_handler_c_bkpt_unconditional:
  "snd (my_fault_handler_c (h\<lparr>debugger_attached := d\<rparr>) frame cd) =
     [Breakpoint 0 (fst (my_fault_handler_c h frame cd))]
   \<and> my_fault_handler_c (h\<lparr>debugger_attached := d\<rparr>) frame cd = my_fault_handler_c h frame cd
   \<and> key (fst (my_fault_handler_c h frame cd)) = COREDUMP_KEY"
  by (simp add: my_fault_handler_c_snd my_fault_handler_c_ignores_debugger
      my_fault_handler_c_fst)

text \<open>
  C1, as stated, fails on the cause member. The handler never assigns it, so the
  persisted cause is whatever the region held before the fault: one and the same fault
  (same hardware state, same frame) leaves cause 7 behind an old record with cause 7 and
  cause 9 behind one with cause 9, and two faults that the specification classifies
  differently (status \<open>0x8282\<close>, a \<open>ProtectionFault\<close>, and status \<open>0x8200\<close>, an
  \<open>AccessFault\<close>) leave the same cause 7. The cause member therefore does not equal a
  classification of the fault.
\<close>

theorem my_fault_handler_c_cause_counterexample:
  "cause (fst (my_fault_handler_c fault_hw 0x2000FFE0 old_dump)) = 7
   \<and> cause (fst (my_fault_handler_c fault_hw 0x2000FFE0 (old_dump\<lparr>cause := 9\<rparr>))) = 9
   \<and> spec_classify (load32 mem_and_bus_hw 0xE000ED28) = ProtectionFault
   \<and> spec_classify (load32 bus_only_hw 0xE000ED28) = AccessFault
   \<and> cause (fst (my_fault_handler_c mem_and_bus_hw 0x2000FFE0 old_dump)) = 7
   \<and> cause (fst (my_fault_handler_c bus_only_hw 0x2000FFE0 old_dump)) = 7"
  by (simp add: my_fault_handler_c_fst)
    (simp add: old_dump_def mem_and_bus_hw_def bus_only_hw_def spec_classify_def
      MMFSR_of_def BFSR_of_def UFSR_of_def)

text \<open>
  C1, amended. After the handler has run on any exception frame, with any hardware state
  and any previous content of the region, the record's key is the known constant, r0-r3
  and the return address are those of the frame, and the cause member is not written: it
  keeps the value the region held before, since the handler computes no classification.
\<close>

theorem my_fault_handler_c_write_postcondition:
  "key (fst (my_fault_handler_c h frame cd)) = COREDUMP_KEY
   \<and> cause (fst (my_fault_handler_c h frame cd)) = cause cd
   \<and> r0 (fst (my_fault_handler_c h frame cd)) = sContextStateFrame.r0 (frame_at h frame)
   \<and> r1 (fst (my_fault_handler_c h frame cd)) = sContextStateFrame.r1 (frame_at h frame)
   \<and> r2 (fst (my_fault_handler_c h frame cd)) = sContextStateFrame.r2 (frame_at h frame)
   \<and> r3 (fst (my_fault_handler_c h frame cd)) = sContextStateFrame.r3 (frame_at h frame)
   \<and> returnAddress (fst (my_fault_handler_c h frame cd)) = return_address (frame_at h frame)"
  by (simp add: my_fault_handler_c_fst frame_at_def)

text \<open>
  Remark on the \<^verbatim>\<open>stackPointer\<close> member, about which the amended statement above says
  nothing. Line 307 of the source assigns it the frame's xPSR word, so the specification's
  postcondition holds of a run exactly for the classification the region already held
  and for a stack pointer equal to that xPSR word. On the concrete fault the member is
  \<open>0x01000000\<close>, neither the address of the stacked frame (\<open>0x2000FFE0\<close>) nor the stack
  pointer before the trap (\<open>0x20010000\<close>).
\<close>

lemma write_postcondition_iff:
  "write_postcondition c sp (frame_at h frame) (fst (my_fault_handler_c h frame cd))
     \<longleftrightarrow> c = cause cd \<and> sp = load32 h (frame + 28)"
  by (auto simp: write_postcondition_def my_fault_handler_c_fst frame_at_def)

lemma my_fault_handler_c_stackPointer_is_xpsr:
  "stackPointer (fst (my_fault_handler_c fault_hw 0x2000FFE0 old_dump)) = 0x01000000
   \<and> xpsr (frame_at fault_hw 0x2000FFE0) = 0x01000000
   \<and> \<not> write_postcondition 7 0x20010000 (frame_at fault_hw 0x2000FFE0)
         (fst (my_fault_handler_c fault_hw 0x2000FFE0 old_dump))
   \<and> \<not> write_postcondition 7 0x2000FFE0 (frame_at fault_hw 0x2000FFE0)
         (fst (my_fault_handler_c fault_hw 0x2000FFE0 old_dump))"
  by (simp add: fault_hw_result write_postcondition_def)
    (simp add: frame_at_def fault_hw_def)

text \<open>
  C4, as stated, fails. On the concrete fault no debugger is attached, yet the handler's
  one action is the breakpoint: the run amounts to \<open>Halt\<close>, not to \<open>Reset\<close>, and no reset
  is requested.
\<close>

theorem my_fault_handler_c_no_reset_counterexample:
  "debugger_attached fault_hw = False
   \<and> decision_of (snd (my_fault_handler_c fault_hw 0x2000FFE0 old_dump)) = Halt
   \<and> decision_of (snd (my_fault_handler_c fault_hw 0x2000FFE0 old_dump)) \<noteq> Reset
   \<and> SystemReset \<notin> set (snd (my_fault_handler_c fault_hw 0x2000FFE0 old_dump))"
  by (simp add: my_fault_handler_c_snd) (simp add: fault_hw_def)

text \<open>
  C4, amended. For every exception frame and every hardware state (every content of the
  fault status registers, hence every fault category, and either value of the
  debugger-present condition) the handler requests no reset and its run never amounts
  to \<open>Reset\<close>; its actions do not depend on the hardware state at all.
\<close>

theorem my_fault_handler_c_never_resets:
  "SystemReset \<notin> set (snd (my_fault_handler_c h frame cd))
   \<and> decision_of (snd (my_fault_handler_c h frame cd)) \<noteq> Reset
   \<and> map (\<lambda>a. case a of Breakpoint n _ \<Rightarrow> Some n | SystemReset \<Rightarrow> None)
        (snd (my_fault_handler_c h frame cd))
     = map (\<lambda>a. case a of Breakpoint n _ \<Rightarrow> Some n | SystemReset \<Rightarrow> None)
        (snd (my_fault_handler_c h' frame' cd'))"
  by (simp add: my_fault_handler_c_snd)

section \<open>Properties of the register-dumping handler\<close>

lemma hard_fault_handler_c_regs:
  "var_CFSR (hard_fault_handler_c_locals h args) = load32 h 0xE000ED28"
  "var_MMAR (hard_fault_handler_c_locals h args) = load32 h 0xE000ED34"
  "var_BFAR (hard_fault_handler_c_locals h args) = load32 h 0xE000ED38"
  by (simp_all add: hard_fault_handler_c_locals_def)

lemma and_ff_take_bit: "(w :: u32) AND 0xFF = take_bit 8 w"
  by (simp add: take_bit_eq_mask mask_eq_exp_minus_1)

lemma cfsr_fields_join:
  "MMFSR_of c OR push_bit 8 (BFSR_of c) OR push_bit 16 (UFSR_of c) = c"
proof (rule bit_word_eqI)
  fix n assume "n < LENGTH(32)"
  then have "n < 8 \<or> (8 \<le> n \<and> n < 16) \<or> (16 \<le> n \<and> n < 32)"
    by auto
  then show "bit (MMFSR_of c OR push_bit 8 (BFSR_of c) OR push_bit 16 (UFSR_of c)) n = bit c n"
    by (auto simp: MMFSR_of_def BFSR_of_def UFSR_of_def and_ff_take_bit bit_simps)
qed

text \<open>
  C5, as stated, fails. With the status register zero, so that the validity bit of either
  fault address register is clear, the handler's locals at the breakpoint hold the raw
  contents of both address registers.
\<close>

theorem hard_fault_handler_c_stale_address_counterexample:
  "hard_fault_handler_c stale_hw 0x2000FFE0 =
     [Breakpoint 0 (hard_fault_handler_c_locals stale_hw 0x2000FFE0)]
   \<and> var_CFSR (hard_fault_handler_c_locals stale_hw 0x2000FFE0) = 0
   \<and> load32 stale_hw 0xE000ED34 = 0xDEADBEEF
   \<and> var_MMAR (hard_fault_handler_c_locals stale_hw 0x2000FFE0) = 0xDEADBEEF
   \<and> load32 stale_hw 0xE000ED38 = 0xCAFEF00D
   \<and> var_BFAR (hard_fault_handler_c_locals stale_hw 0x2000FFE0) = 0xCAFEF00D"
  by (simp add: hard_fault_handler_c_def hard_fault_handler_c_regs) (simp add: stale_hw_def)

text \<open>
  C5, amended. In every run of the handler, whatever the composite status register holds
  (so whether the validity bits are set or clear), the locals at the breakpoint report
  the raw contents of the memory-management and the bus fault address register, next to
  the raw status register in which the validity bits can be looked up; no run reports an
  address as not available. The second and third line put an arbitrary value \<open>c\<close> into the
  status register.
\<close>

theorem hard_fault_handler_c_reports_raw_addresses:
  "hard_fault_handler_c h args = [Breakpoint 0 (hard_fault_handler_c_locals h args)]
   \<and> var_MMAR (hard_fault_handler_c_locals (h\<lparr>load32 := (load32 h)(0xE000ED28 := c)\<rparr>) args)
       = load32 h 0xE000ED34
   \<and> var_BFAR (hard_fault_handler_c_locals (h\<lparr>load32 := (load32 h)(0xE000ED28 := c)\<rparr>) args)
       = load32 h 0xE000ED38
   \<and> var_CFSR (hard_fault_handler_c_locals (h\<lparr>load32 := (load32 h)(0xE000ED28 := c)\<rparr>) args)
       = c"
  by (simp add: hard_fault_handler_c_def hard_fault_handler_c_regs)

text \<open>
  C6, as stated, fails. The status value \<open>0x8282\<close> has a memory-management and a bus
  sub-status bit set, and the specification's priority order makes it a
  \<open>ProtectionFault\<close>, while \<open>0x8200\<close> is an \<open>AccessFault\<close>. The register-dumping handler
  reports the first value as it is, bus sub-status included, and the core-dump handler
  stores the same cause for both values (the 7 the region held before): neither reports
  a category chosen by priority.
\<close>

theorem hard_fault_handler_c_no_priority_counterexample:
  "MMFSR_of (load32 mem_and_bus_hw 0xE000ED28) = 0x82
   \<and> BFSR_of (load32 mem_and_bus_hw 0xE000ED28) = 0x82
   \<and> spec_classify (load32 mem_and_bus_hw 0xE000ED28) = ProtectionFault
   \<and> spec_classify (load32 bus_only_hw 0xE000ED28) = AccessFault
   \<and> var_CFSR (hard_fault_handler_c_locals mem_and_bus_hw 0x2000FFE0) = 0x8282
   \<and> BFSR_of (var_CFSR (hard_fault_handler_c_locals mem_and_bus_hw 0x2000FFE0)) \<noteq> 0
   \<and> cause (fst (my_fault_handler_c mem_and_bus_hw 0x2000FFE0 old_dump)) = 7
   \<and> cause (fst (my_fault_handler_c bus_only_hw 0x2000FFE0 old_dump)) = 7"
  by (simp add: hard_fault_handler_c_regs my_fault_handler_c_fst)
    (simp add: mem_and_bus_hw_def bus_only_hw_def old_dump_def spec_classify_def
      MMFSR_of_def BFSR_of_def UFSR_of_def)

text \<open>
  C6, amended. For every composite status value the handlers apply no priority order and
  report no category: the register-dumping handler reports the status register unchanged,
  so that its three sub-status fields put together again are the register's value (a bus
  bit stays reported beside a memory-management bit), and the core-dump handler leaves
  the cause member as it was, whatever the status registers hold.
\<close>

theorem hard_fault_handler_c_reports_raw_status:
  "var_CFSR (hard_fault_handler_c_locals h args) = load32 h 0xE000ED28
   \<and> MMFSR_of (var_CFSR (hard_fault_handler_c_locals h args))
       OR push_bit 8 (BFSR_of (var_CFSR (hard_fault_handler_c_locals h args)))
       OR push_bit 16 (UFSR_of (var_CFSR (hard_fault_handler_c_locals h args)))
     = load32 h 0xE000ED28
   \<and> cause (fst (my_fault_handler_c h frame cd)) = cause cd"
  by (simp add: hard_fault_handler_c_regs cfsr_fields_join my_fault_handler_c_fst)

section \<open>Properties of the trampolines\<close>

lemma and_4_bit_2: "(w AND 4 = 0) \<longleftrightarrow> \<not> bit (w :: u32) 2"
  using bit_iff_and_push_bit_not_eq_0 [of w 2] by simp

lemma HARDFAULT_HANDLING_ASM_R0:
  "R0 (HARDFAULT_HANDLING_ASM c) = (if bit (LR c) 2 then PSP c else MSP c)"
  by (simp add: HARDFAULT_HANDLING_ASM_def tst_def mrs_r0_def Let_def and_4_bit_2)

lemma HardFault_Handler_1_asm_R0:
  "R0 (HardFault_Handler_1_asm h c) = (if bit (LR c) 2 then PSP c else MSP c)"
  by (simp add: HardFault_Handler_1_asm_def tst_def mrs_r0_def movs_r0_def movs_r1_def
      ldr_r1_def Let_def and_4_bit_2 and.commute)

text \<open>
  C7. In both trampolines the tested bit of the link register is bit 2, the bit of value
  4. r0 at the final branch is the main stack pointer when that bit is clear and the
  process stack pointer when it is set; the C handler is entered with exactly that value
  as its frame pointer, and the frame it reads is the one stored there (shown on the
  first member).
\<close>

theorem HardFault_Handler_selects_stack:
  "(LR c AND 4 = 0) = (\<not> bit (LR c) 2)
   \<and> R0 (HARDFAULT_HANDLING_ASM c) = (if bit (LR c) 2 then PSP c else MSP c)
   \<and> HardFault_Handler h c cd
       = my_fault_handler_c h (if bit (LR c) 2 then PSP c else MSP c) cd
   \<and> r0 (fst (HardFault_Handler h c cd))
       = load32 h (if bit (LR c) 2 then PSP c else MSP c)
   \<and> R0 (HardFault_Handler_1_asm h c) = (if bit (LR c) 2 then PSP c else MSP c)
   \<and> HardFault_Handler_1 h c
       = hard_fault_handler_c h (if bit (LR c) 2 then PSP c else MSP c)"
  by (simp add: and_4_bit_2 HardFault_Handler_def HardFault_Handler_1_def
      HARDFAULT_HANDLING_ASM_R0 HardFault_Handler_1_asm_R0 my_fault_handler_c_fst)

theorem HardFault_Handler_selects_stack_witness:
  "\<not> bit (LR main_stack_cpu) 2
   \<and> HardFault_Handler fault_hw main_stack_cpu old_dump
       = my_fault_handler_c fault_hw 0x2000FFE0 old_dump
   \<and> r0 (fst (HardFault_Handler fault_hw main_stack_cpu old_dump)) = 0x11
   \<and> bit (LR process_stack_cpu) 2
   \<and> HardFault_Handler fault_hw process_stack_cpu old_dump
       = my_fault_handler_c fault_hw 0x20004000 old_dump
   \<and> HardFault_Handler_1 fault_hw process_stack_cpu
       = hard_fault_handler_c fault_hw 0x20004000"
proof -
  have m: "\<not> bit (LR main_stack_cpu) 2" "MSP main_stack_cpu = 0x2000FFE0"
    by (simp_all add: main_stack_cpu_def)
  have p: "bit (LR process_stack_cpu) 2" "PSP process_stack_cpu = 0x20004000"
    by (simp_all add: process_stack_cpu_def)
  have l: "load32 fault_hw 0x2000FFE0 = 0x11"
    by (simp add: fault_hw_def)
  show ?thesis
    using HardFault_Handler_selects_stack [of main_stack_cpu fault_hw old_dump]
      HardFault_Handler_selects_stack [of process_stack_cpu fault_hw old_dump] m p l
    by (simp add: my_fault_handler_c_fst)
qed

section \<open>Properties of the record in memory\<close>

lemma bytes_u32_le_inverse: "bytes_u32_le (u32_bytes_le w) = w"
  unfolding u32_bytes_le_def bytes_u32_le.simps
proof (rule bit_word_eqI)
  fix n assume "n < LENGTH(32)"
  then have "n < 8 \<or> (8 \<le> n \<and> n < 16) \<or> (16 \<le> n \<and> n < 24) \<or> (24 \<le> n \<and> n < 32)"
    by auto
  then show "bit (ucast (ucast w :: u8) OR push_bit 8 (ucast (ucast (drop_bit 8 w) :: u8)) OR
       push_bit 16 (ucast (ucast (drop_bit 16 w) :: u8)) OR
       push_bit 24 (ucast (ucast (drop_bit 24 w) :: u8)) :: u32) n = bit w n"
    by (auto simp: bit_simps)
qed

lemma u32_bytes_le_inverse: "u32_bytes_le (bytes_u32_le [b0, b1, b2, b3]) = [b0, b1, b2, b3]"
proof -
  let ?w = "bytes_u32_le [b0, b1, b2, b3]"
  have "(ucast ?w :: u8) = b0"
    unfolding bytes_u32_le.simps
    by (rule bit_word_eqI) (auto simp: bit_simps dest: bit_imp_le_length)
  moreover have "(ucast (drop_bit 8 ?w) :: u8) = b1"
    unfolding bytes_u32_le.simps
    by (rule bit_word_eqI) (auto simp: bit_simps dest: bit_imp_le_length)
  moreover have "(ucast (drop_bit 16 ?w) :: u8) = b2"
    unfolding bytes_u32_le.simps
    by (rule bit_word_eqI) (auto simp: bit_simps dest: bit_imp_le_length)
  moreover have "(ucast (drop_bit 24 ?w) :: u8) = b3"
    unfolding bytes_u32_le.simps
    by (rule bit_word_eqI) (auto simp: bit_simps dest: bit_imp_le_length)
  ultimately show ?thesis
    by (simp add: u32_bytes_le_def)
qed

lemma length_u32_bytes: "length (u32_bytes e w) = 4"
  by (cases e) (simp_all add: u32_bytes_le_def)

lemma bytes_u32_inverse: "bytes_u32 e (u32_bytes e w) = w"
  by (cases e) (simp_all add: bytes_u32_le_inverse)

lemma four_bytes: "length bs = 4 \<Longrightarrow> \<exists>b0 b1 b2 b3. bs = [b0, b1, b2, b3]"
  by (auto simp: length_Suc_conv numeral_eq_Suc)

lemma u32_bytes_inverse:
  assumes "length bs = 4"
  shows "u32_bytes e (bytes_u32 e bs) = bs"
proof -
  from assms obtain b0 b1 b2 b3 where bs: "bs = [b0, b1, b2, b3]"
    using four_bytes by blast
  show ?thesis
  proof (cases e)
    case LittleEndian
    then show ?thesis
      by (simp add: bs u32_bytes_le_inverse del: bytes_u32_le.simps)
  next
    case BigEndian
    then show ?thesis
      by (simp add: bs u32_bytes_le_inverse del: bytes_u32_le.simps)
  qed
qed

lemma member_bytes_image:
  "member_bytes 0 (sCoreDump_bytes e cd) = u32_bytes e (key cd)"
  "member_bytes 4 (sCoreDump_bytes e cd) = u32_bytes e (cause cd)"
  "member_bytes 8 (sCoreDump_bytes e cd) = u32_bytes e (r0 cd)"
  "member_bytes 12 (sCoreDump_bytes e cd) = u32_bytes e (r1 cd)"
  "member_bytes 16 (sCoreDump_bytes e cd) = u32_bytes e (r2 cd)"
  "member_bytes 20 (sCoreDump_bytes e cd) = u32_bytes e (r3 cd)"
  "member_bytes 24 (sCoreDump_bytes e cd) = u32_bytes e (returnAddress cd)"
  "member_bytes 28 (sCoreDump_bytes e cd) = u32_bytes e (stackPointer cd)"
  "member_bytes 32 (sCoreDump_bytes e cd) = u32_bytes e (lastBattReading cd)"
  by (simp_all add: member_bytes_def sCoreDump_bytes_def member_values_def length_u32_bytes)

lemma length_sCoreDump_bytes: "length (sCoreDump_bytes e cd) = 36"
  by (simp add: sCoreDump_bytes_def member_values_def length_u32_bytes)

lemma bytes_sCoreDump_inverse: "bytes_sCoreDump e (sCoreDump_bytes e cd) = cd"
  by (simp add: bytes_sCoreDump_def member_bytes_image bytes_u32_inverse)

lemma region_split:
  "length region = 36 \<Longrightarrow>
   region = member_bytes 0 region @ member_bytes 4 region @ member_bytes 8 region @
     member_bytes 12 region @ member_bytes 16 region @ member_bytes 20 region @
     member_bytes 24 region @ member_bytes 28 region @ member_bytes 32 region"
  unfolding member_bytes_def
  by (simp add: list_eq_iff_nth_eq nth_append)

lemma length_member_bytes: "off + 4 \<le> length region \<Longrightarrow> length (member_bytes off region) = 4"
  by (simp add: member_bytes_def)

lemma sCoreDump_bytes_inverse:
  assumes "length region = 36"
  shows "sCoreDump_bytes e (bytes_sCoreDump e region) = region"
proof -
  have "sCoreDump_bytes e (bytes_sCoreDump e region) =
      member_bytes 0 region @ member_bytes 4 region @ member_bytes 8 region @
      member_bytes 12 region @ member_bytes 16 region @ member_bytes 20 region @
      member_bytes 24 region @ member_bytes 28 region @ member_bytes 32 region"
    using assms
    by (simp add: sCoreDump_bytes_def member_values_def bytes_sCoreDump_def
        u32_bytes_inverse length_member_bytes)
  also have "\<dots> = region"
    using region_split [OF assms] by simp
  finally show ?thesis .
qed

text \<open>
  C8. The declared members, in order, are key, cause, r0-r3, returnAddress, stackPointer
  and lastBattReading, four bytes each at offsets 0, 4, ..., 32, whether the struct is
  packed or naturally aligned, so there is no padding and the record takes 36 bytes. In
  memory every member's bytes stand at its offset in the byte order of the target (for
  a little-endian target the key reads \<open>24 20 0C 0E\<close>). The layout does not depend on the
  record: it is that of every record the handler writes, whose first four bytes are the
  key.
\<close>

theorem sCoreDump_layout:
  "layout_packed 0 sCoreDump_members =
     [(''key'', 0, 4), (''cause'', 4, 4), (''r0'', 8, 4), (''r1'', 12, 4), (''r2'', 16, 4),
      (''r3'', 20, 4), (''returnAddress'', 24, 4), (''stackPointer'', 28, 4),
      (''lastBattReading'', 32, 4)]
   \<and> layout_aligned 0 sCoreDump_members = layout_packed 0 sCoreDump_members
   \<and> length (sCoreDump_bytes e cd) = 36
   \<and> member_bytes 0 (sCoreDump_bytes e cd) = u32_bytes e (key cd)
   \<and> member_bytes 4 (sCoreDump_bytes e cd) = u32_bytes e (cause cd)
   \<and> member_bytes 8 (sCoreDump_bytes e cd) = u32_bytes e (r0 cd)
   \<and> member_bytes 12 (sCoreDump_bytes e cd) = u32_bytes e (r1 cd)
   \<and> member_bytes 16 (sCoreDump_bytes e cd) = u32_bytes e (r2 cd)
   \<and> member_bytes 20 (sCoreDump_bytes e cd) = u32_bytes e (r3 cd)
   \<and> member_bytes 24 (sCoreDump_bytes e cd) = u32_bytes e (returnAddress cd)
   \<and> member_bytes 28 (sCoreDump_bytes e cd) = u32_bytes e (stackPointer cd)
   \<and> member_bytes 32 (sCoreDump_bytes e cd) = u32_bytes e (lastBattReading cd)
   \<and> u32_bytes LittleEndian COREDUMP_KEY = [0x24, 0x20, 0x0C, 0x0E]
   \<and> u32_bytes BigEndian COREDUMP_KEY = [0x0E, 0x0C, 0x20, 0x24]
   \<and> member_bytes 0 (sCoreDump_bytes e (fst (my_fault_handler_c h frame cd')))
       = u32_bytes e COREDUMP_KEY"
proof -
  have "layout_packed 0 sCoreDump_members =
     [(''key'', 0, 4), (''cause'', 4, 4), (''r0'', 8, 4), (''r1'', 12, 4), (''r2'', 16, 4),
      (''r3'', 20, 4), (''returnAddress'', 24, 4), (''stackPointer'', 28, 4),
      (''lastBattReading'', 32, 4)]"
    by (simp add: sCoreDump_members_def)
  moreover have "layout_aligned 0 sCoreDump_members = layout_packed 0 sCoreDump_members"
    by (simp add: sCoreDump_members_def align_up_def)
  moreover have "u32_bytes LittleEndian COREDUMP_KEY = [0x24, 0x20, 0x0C, 0x0E]"
    "u32_bytes BigEndian COREDUMP_KEY = [0x0E, 0x0C, 0x20, 0x24]"
    by (simp_all add: COREDUMP_KEY_def u32_bytes_le_def)
  moreover have "member_bytes 0 (sCoreDump_bytes e (fst (my_fault_handler_c h frame cd')))
       = u32_bytes e COREDUMP_KEY"
    by (simp add: member_bytes_image my_fault_handler_c_fst)
  ultimately show ?thesis
    by (simp add: member_bytes_image length_sCoreDump_bytes)
qed

section \<open>Properties of the boot-time read\<close>

text \<open>
  C2. For every content of the 36-byte region and either byte order: when the key member
  found in the region differs from \<^verbatim>\<open>COREDUMP_KEY\<close> the read is absent, whatever the other
  32 bytes hold; otherwise it returns the record found in the region, which is the full
  record: stored again it gives back the region byte for byte.
\<close>

theorem coreDump_read_validates_key:
  "length region = 36 \<Longrightarrow>
     (bytes_u32 e (member_bytes 0 region) \<noteq> COREDUMP_KEY \<longrightarrow> coreDump_read e region = None)
     \<and> (bytes_u32 e (member_bytes 0 region) = COREDUMP_KEY \<longrightarrow>
          coreDump_read e region = Some (bytes_sCoreDump e region)
          \<and> key (bytes_sCoreDump e region) = COREDUMP_KEY
          \<and> sCoreDump_bytes e (bytes_sCoreDump e region) = region)"
  by (simp add: coreDump_read_def sCoreDump_bytes_inverse) (simp add: bytes_sCoreDump_def)

theorem coreDump_read_validates_key_witness:
  "length blank_region = 36
   \<and> bytes_u32 LittleEndian (member_bytes 0 blank_region) \<noteq> COREDUMP_KEY
   \<and> coreDump_read LittleEndian blank_region = None
   \<and> length fault_region = 36
   \<and> bytes_u32 LittleEndian (member_bytes 0 fault_region) = COREDUMP_KEY
   \<and> coreDump_read LittleEndian fault_region =
       Some \<lparr>key = 0xE0C2024, cause = 7, r0 = 0x11, r1 = 0x22, r2 = 0x33, r3 = 0x44,
         returnAddress = 0x08000456, stackPointer = 0x01000000, lastBattReading = 0\<rparr>"
proof -
  have b: "length blank_region = 36"
    "bytes_u32 LittleEndian (member_bytes 0 blank_region) \<noteq> COREDUMP_KEY"
    by (simp_all add: blank_region_def member_bytes_def COREDUMP_KEY_def)
  have f: "length fault_region = 36"
    "bytes_u32 LittleEndian (member_bytes 0 fault_region) = COREDUMP_KEY"
    by (simp_all add: fault_region_def member_bytes_def COREDUMP_KEY_def)
  have d: "bytes_sCoreDump LittleEndian fault_region =
      \<lparr>key = 0xE0C2024, cause = 7, r0 = 0x11, r1 = 0x22, r2 = 0x33, r3 = 0x44,
       returnAddress = 0x08000456, stackPointer = 0x01000000, lastBattReading = 0\<rparr>"
    by (simp add: bytes_sCoreDump_def fault_region_def member_bytes_def)
  show ?thesis
    using coreDump_read_validates_key [OF b(1), of LittleEndian]
      coreDump_read_validates_key [OF f(1), of LittleEndian] b f d
    by simp
qed

text \<open>
  C3. Stored in the region and loaded again, every record comes back with every member
  equal, in either byte order. Through the validating read the same holds for every
  record written with the key, as the handler writes it: the record the handler has
  persisted, for any frame and any earlier content of the region, is what the read
  returns after the reset.
\<close>

theorem coreDump_write_read_roundtrip:
  "bytes_sCoreDump e (sCoreDump_bytes e r) = r
   \<and> coreDump_read e (sCoreDump_bytes e (r\<lparr>key := COREDUMP_KEY\<rparr>))
       = Some (r\<lparr>key := COREDUMP_KEY\<rparr>)
   \<and> coreDump_read e (sCoreDump_bytes e (fst (my_fault_handler_c h frame cd)))
       = Some (fst (my_fault_handler_c h frame cd))"
  by (simp add: bytes_sCoreDump_inverse coreDump_read_def member_bytes_image
      bytes_u32_inverse my_fault_handler_c_fst)

end
